theory Spec2Isabelle
  imports Main "HOL-Library.Word" "HOL-Library.Sublist"
begin

unbundle bit_operations_syntax

section \<open>Predicate algebra (package engine, predicates)\<close>

text \<open>
  A Go \<^verbatim>\<open>Predicate[R]\<close> is a function \<^verbatim>\<open>func(R) (bool, error)\<close>. The error
  result is \<^verbatim>\<open>nil\<close> or an error value: \<open>None\<close> or \<open>Some e\<close>. The predicates built
  by the policy compiler close over immutable mappers only, so a predicate is a
  pure function of the record.
\<close>

type_synonym ('r, 'e) Predicate = "'r \<Rightarrow> bool \<times> 'e option"

datatype ('r, 'e) Criterion = Criterion (Pred: "('r, 'e) Predicate")

definition Eval :: "('r, 'e) Criterion \<Rightarrow> 'r \<Rightarrow> bool \<times> 'e option" where
  "Eval c r = Pred c r"

text \<open>
  \<^verbatim>\<open>And\<close>: the closure evaluates the receiver \<^verbatim>\<open>c\<close>; when that returns an error
  it evaluates \<^verbatim>\<open>c\<close> a second time (the argument \<^verbatim>\<open>cr\<close> is never evaluated) and,
  when the second evaluation errs as well, returns \<^verbatim>\<open>b1 && b2\<close> with that error.
  Every other path reaches \<^verbatim>\<open>return false, err\<close>, with \<^verbatim>\<open>err\<close> the error of the
  last evaluation made.
\<close>

definition And :: "('r, 'e) Criterion \<Rightarrow> ('r, 'e) Criterion \<Rightarrow> ('r, 'e) Criterion" where
  "And c cr = Criterion (\<lambda>r.
     (case Eval c r of (b1, err) \<Rightarrow>
        if err \<noteq> None then
          (case Eval c r of (b2, err') \<Rightarrow>
             if err' \<noteq> None then (b1 \<and> b2, err') else (False, err'))
        else (False, err)))"

definition Or :: "('r, 'e) Criterion \<Rightarrow> ('r, 'e) Criterion \<Rightarrow> ('r, 'e) Criterion" where
  "Or c cr = Criterion (\<lambda>r.
     (case Eval c r of (b1, err) \<Rightarrow>
        if err \<noteq> None then
          (case Eval c r of (b2, err') \<Rightarrow>
             if err' \<noteq> None then (b1 \<or> b2, err') else (False, err'))
        else (False, err)))"

text \<open>
  \<^verbatim>\<open>Not\<close> (here \<open>Not_crit\<close>, the name \<open>Not\<close> being the negation of HOL): the
  negated result is returned only on the error path; without an error the
  closure returns \<^verbatim>\<open>false, err\<close>.
\<close>

definition Not_crit :: "('r, 'e) Criterion \<Rightarrow> ('r, 'e) Criterion" where
  "Not_crit c = Criterion (\<lambda>r.
     (case Eval c r of (res, err) \<Rightarrow>
        if err \<noteq> None then (\<not> res, err) else (False, err)))"

text \<open>The constants \<^verbatim>\<open>True\<close> and \<^verbatim>\<open>False\<close> of package falco.\<close>

definition True_crit :: "('r, 'e) Criterion" where
  "True_crit = Criterion (\<lambda>r. (True, None))"

definition False_crit :: "('r, 'e) Criterion" where
  "False_crit = Criterion (\<lambda>r. (False, None))"

section \<open>Policy interpreter (package engine, interpreter)\<close>

datatype Priority = Low | Medium | High

text \<open>
  Modelled from the spec: the type \<^verbatim>\<open>Mode\<close> and its constants \<^verbatim>\<open>AlertMode\<close> and
  \<^verbatim>\<open>EnrichMode\<close> are declared outside the available sources; the spec names
  exactly the two modes alert and enrich.
\<close>

datatype Mode = AlertMode | EnrichMode

record ('r, 'e) Rule =
  Name :: string
  Desc :: string
  condition :: "('r, 'e) Criterion"
  Actions :: "string list"
  Tags :: "string list"
  Priority :: Priority
  Prefilter :: "string list"
  Enabled :: bool

record ('r, 'e) Filter =
  Name :: string
  condition :: "('r, 'e) Criterion"
  Enabled :: bool

text \<open>
  The fields of \<^verbatim>\<open>PolicyInterpreter\<close> that \<^verbatim>\<open>Process\<close> reads. The parsing tables,
  the worker channel, the wait group and the output callback play no part in it.
\<close>

record ('r, 'e) PolicyInterpreter =
  mode :: Mode
  rules :: "('r, 'e) Rule list"
  filters :: "('r, 'e) Filter list"

text \<open>
  The interpreter uses the result of \<^verbatim>\<open>Eval\<close> as the condition of an
  \<^verbatim>\<open>if\<close>: the value tested is the boolean result.
\<close>

definition holds :: "('r, 'e) Criterion \<Rightarrow> 'r \<Rightarrow> bool" where
  "holds c r = fst (Eval c r)"

text \<open>The loop of \<^verbatim>\<open>EvalFilters\<close>: return true at the first enabled filter that holds.\<close>

fun EvalFilters_loop :: "('r, 'e) Filter list \<Rightarrow> 'r \<Rightarrow> bool" where
  "EvalFilters_loop [] r = False"
| "EvalFilters_loop (f # fs) r =
     (if Filter.Enabled f \<and> holds (Filter.condition f) r then True else EvalFilters_loop fs r)"

definition EvalFilters :: "('r, 'e) PolicyInterpreter \<Rightarrow> 'r \<Rightarrow> bool" where
  "EvalFilters pi r = EvalFilters_loop (filters pi) r"

text \<open>
  The loop over the rules in \<^verbatim>\<open>Process\<close>; \<^verbatim>\<open>worker\<close> runs the same loop on each
  record it receives. Its body only sets \<^verbatim>\<open>match\<close>; the calls that would set the
  alert flag, add the rule to the record's context and run the actions are
  commented out in the source.
\<close>

fun Process_rules :: "('r, 'e) Rule list \<Rightarrow> 'r \<Rightarrow> bool \<Rightarrow> bool" where
  "Process_rules [] r match = match"
| "Process_rules (rule # rs) r match =
     Process_rules rs r (if Rule.Enabled rule \<and> holds (Rule.condition rule) r then True else match)"

text \<open>\<^verbatim>\<open>Process\<close> returns the record pointer it was given, or \<^verbatim>\<open>nil\<close> (\<open>None\<close>).\<close>

definition Process :: "('r, 'e) PolicyInterpreter \<Rightarrow> 'r \<Rightarrow> 'r option" where
  "Process pi r =
     (if EvalFilters pi r then None
      else (let match = (mode pi = EnrichMode);
                match = Process_rules (rules pi) r match
            in if match then Some r else None))"


subsection \<open>A record with a context, and one policy\<close>

text \<open>
  Modelled from the spec: the record type of the engine and its context are
  declared outside the available sources. The spec gives a record a mutable
  context holding a set of tags, the matched rules and an alert flag. Only what
  is needed to observe the context of a forwarded record is kept here: the
  names of the matched rules, their tags and the alert flag.
\<close>

record RecordContext =
  alert :: bool
  matched :: "string list"
  tags :: "string list"

record Record =
  exe :: string
  Ctx :: RecordContext

text \<open>
  The policy of scenario S1 after compilation, with its condition already
  decided: one enabled rule of priority medium whose condition is true on the
  record, no filter, alert mode.
\<close>

definition proc_exec :: "(Record, string) Rule" where
  "proc_exec = \<lparr>Rule.Name = ''proc-exec'', Desc = ''a process was started'',
     condition = True_crit, Actions = [''alert''], Tags = [''exec''],
     Priority = Medium, Prefilter = [], Enabled = True\<rparr>"

definition alert_policy :: "(Record, string) PolicyInterpreter" where
  "alert_policy = \<lparr>mode = AlertMode, rules = [proc_exec], filters = []\<rparr>"

definition bash_record :: Record where
  "bash_record = \<lparr>exe = ''/usr/bin/bash'',
     Ctx = \<lparr>alert = False, matched = [], tags = []\<rparr>\<rparr>"


section \<open>Policy compiler: severity to priority (package falco)\<close>

text \<open>\<^verbatim>\<open>Priority.String\<close> indexes the array \<^verbatim>\<open>{"low", "medium", "high"}\<close>.\<close>

fun Priority_String :: "Priority \<Rightarrow> string" where
  "Priority_String Low = ''low''"
| "Priority_String Medium = ''medium''"
| "Priority_String High = ''high''"

text \<open>
  Modelled from the spec: the constants \<^verbatim>\<open>FPriorityDebug\<close> to
  \<^verbatim>\<open>FPriorityEmergency\<close> are declared outside the available sources; the spec
  lists the textual severities debug, info, informational, notice, warning,
  error, critical and emergency.
\<close>

definition FPriorityDebug :: string where "FPriorityDebug = ''debug''"
definition FPriorityInfo :: string where "FPriorityInfo = ''info''"
definition FPriorityInformational :: string where "FPriorityInformational = ''informational''"
definition FPriorityNotice :: string where "FPriorityNotice = ''notice''"
definition FPriorityWarning :: string where "FPriorityWarning = ''warning''"
definition FPriorityError :: string where "FPriorityError = ''error''"
definition FPriorityCritical :: string where "FPriorityCritical = ''critical''"
definition FPriorityEmergency :: string where "FPriorityEmergency = ''emergency''"

text \<open>
  \<^verbatim>\<open>getPriority\<close>. The argument \<open>ictx\<close> is the severity of the rule: \<open>None\<close>
  when the rule has none (\<^verbatim>\<open>ctx.Severity(0) == nil\<close>), otherwise its text. The
  result is the priority together with a flag telling whether the warning
  \<^verbatim>\<open>Unrecognized priority value\<close> was logged. The function \<^verbatim>\<open>strings.ToLower\<close>
  belongs to the Go library: it decodes the text as UTF-8 and maps every
  upper-case letter of Unicode to its lower-case form. It is the parameter
  \<open>ToLower\<close>, of which nothing is assumed.
\<close>

definition getPriority :: "(string \<Rightarrow> string) \<Rightarrow> string option \<Rightarrow> Priority \<times> bool" where
  "getPriority ToLower ictx =
     (case ictx of
        None \<Rightarrow> (Low, False)
      | Some p \<Rightarrow>
          (let s = ToLower p in
           if s = Priority_String Low then (Low, False)
           else if s = Priority_String Medium then (Medium, False)
           else if s = Priority_String High then (High, False)
           else if s = FPriorityDebug then (Low, False)
           else if s = FPriorityInfo then (Low, False)
           else if s = FPriorityInformational then (Low, False)
           else if s = FPriorityNotice then (Low, False)
           else if s = FPriorityWarning then (Medium, False)
           else if s = FPriorityError then (High, False)
           else if s = FPriorityCritical then (High, False)
           else if s = FPriorityEmergency then (High, False)
           else (Low, True)))"

text \<open>
  What \<^verbatim>\<open>strings.ToLower\<close> returns on a text made of ASCII bytes only: the
  letters \<^verbatim>\<open>A\<close> to \<^verbatim>\<open>Z\<close> become \<^verbatim>\<open>a\<close> to \<^verbatim>\<open>z\<close>, every other byte is kept. This
  function stands for \<^verbatim>\<open>strings.ToLower\<close> on such texts only; a text with a byte
  above \<^verbatim>\<open>0x7F\<close> is outside its scope.
\<close>

definition is_ascii :: "char \<Rightarrow> bool" where
  "is_ascii c \<longleftrightarrow> (of_char c :: nat) < 128"

definition ToLower_ascii_char :: "char \<Rightarrow> char" where
  "ToLower_ascii_char c =
     (if 65 \<le> (of_char c :: nat) \<and> (of_char c :: nat) \<le> 90
      then char_of ((of_char c :: nat) + 32) else c)"

definition ToLower_ascii :: "string \<Rightarrow> string" where
  "ToLower_ascii s = map ToLower_ascii_char s"



section \<open>Field mapper (package falco)\<close>

text \<open>
  The mappers return \<^verbatim>\<open>interface{}\<close>; the accessors below distinguish the dynamic
  types string, int64, int32 and bool. \<open>VOther\<close> stands for a value of any other
  dynamic type (the array mappers return pointers to slices).
\<close>

datatype val = VString string | VInt64 "64 word" | VInt32 "32 word" | VBool bool | VOther

type_synonym 'r FieldMap = "'r \<Rightarrow> val"

text \<open>
  Of a \<^verbatim>\<open>FieldEntry\<close> the accessors read the mapping function only; the flat
  index, the mapping type, the source, the section and the auxiliary attribute
  are metadata for other components. The table itself is a parameter: its
  entries are built from accessors of the record type, which live outside the
  available sources.
\<close>

record 'r FieldEntry =
  Map :: "'r FieldMap"

record 'r FieldMapper =
  Mappers :: "string \<rightharpoonup> 'r FieldEntry"

definition Map :: "'r FieldMapper \<Rightarrow> string \<Rightarrow> 'r FieldMap" where
  "Map m attr =
     (case Mappers m attr of
        Some mapper \<Rightarrow> FieldEntry.Map mapper
      | None \<Rightarrow> (\<lambda>r. VString attr))"

subsection \<open>The conversions of package strconv used by the mapper\<close>

datatype NumError = ErrSyntax | ErrRange

definition is_digit :: "char \<Rightarrow> bool" where
  "is_digit c \<longleftrightarrow> 48 \<le> (of_char c :: int) \<and> (of_char c :: int) \<le> 57"

definition digit_val :: "char \<Rightarrow> int" where
  "digit_val c = (of_char c :: int) - 48"

text \<open>
  The digit loop of \<^verbatim>\<open>ParseUint(s, 10, 64)\<close>. The accumulator is a \<^verbatim>\<open>uint64\<close>,
  held here as an integer with the wrap-around of \<^verbatim>\<open>n * 10\<close> and \<^verbatim>\<open>n + d\<close>
  written out. A byte that is no decimal digit is a syntax error; an
  accumulator at or above the cutoff \<^verbatim>\<open>maxUint64 / 10 + 1\<close>, or a sum that
  wraps, is a range error.
\<close>

fun ParseUint_loop :: "string \<Rightarrow> int \<Rightarrow> NumError + int" where
  "ParseUint_loop [] n = Inr n"
| "ParseUint_loop (c # cs) n =
     (if \<not> is_digit c then Inl ErrSyntax
      else if n \<ge> (2 ^ 64 - 1) div 10 + 1 then Inl ErrRange
      else (let n10 = (n * 10) mod 2 ^ 64; n1 = (n10 + digit_val c) mod 2 ^ 64
            in if n1 < n10 \<or> n1 > 2 ^ 64 - 1 then Inl ErrRange
               else ParseUint_loop cs n1))"

definition ParseUint :: "string \<Rightarrow> NumError + int" where
  "ParseUint s = (if s = [] then Inl ErrSyntax else ParseUint_loop s 0)"

text \<open>
  \<^verbatim>\<open>ParseInt(s, 10, 64)\<close>: an optional sign, then \<^verbatim>\<open>ParseUint\<close>, then the check
  against the cutoff \<^verbatim>\<open>1 << 63\<close>. Every error leaves \<^verbatim>\<open>err != nil\<close>.
\<close>

definition ParseInt :: "string \<Rightarrow> NumError + 64 word" where
  "ParseInt s =
     (case s of
        [] \<Rightarrow> Inl ErrSyntax
      | c # cs \<Rightarrow>
          (let neg = (c = CHR ''-'');
               s' = (if c = CHR ''+'' \<or> c = CHR ''-'' then cs else s)
           in case ParseUint s' of
                Inl e \<Rightarrow> Inl e
              | Inr un \<Rightarrow>
                  if \<not> neg \<and> un \<ge> 2 ^ 63 then Inl ErrRange
                  else if neg \<and> un > 2 ^ 63 then Inl ErrRange
                  else Inr (if neg then - word_of_int un else word_of_int un)))"

text \<open>
  What a decimal integer literal is and denotes: an optional sign followed by
  at least one decimal digit, read in base ten.
\<close>

definition digits_value :: "string \<Rightarrow> int" where
  "digits_value cs = foldl (\<lambda>a c. a * 10 + digit_val c) 0 cs"

definition decimal_literal :: "string \<Rightarrow> int option" where
  "decimal_literal s =
     (case s of
        [] \<Rightarrow> None
      | c # cs \<Rightarrow>
          (let body = (if c = CHR ''+'' \<or> c = CHR ''-'' then cs else s)
           in if body \<noteq> [] \<and> list_all is_digit body
              then Some (if c = CHR ''-'' then - digits_value body else digits_value body)
              else None))"

fun dec_digits :: "nat \<Rightarrow> string" where
  "dec_digits n =
     (if n < 10 then [char_of (48 + n)]
      else dec_digits (n div 10) @ [char_of (48 + n mod 10)])"

text \<open>\<^verbatim>\<open>FormatInt(v, 10)\<close> on the value of a signed integer.\<close>

definition FormatInt :: "int \<Rightarrow> string" where
  "FormatInt i = (if i < 0 then CHR ''-'' # dec_digits (nat (- i)) else dec_digits (nat i))"

definition FormatBool :: "bool \<Rightarrow> string" where
  "FormatBool b = (if b then ''true'' else ''false'')"

subsection \<open>MapInt\<close>

text \<open>\<^verbatim>\<open>sfgo.Zeros.Int64\<close> is the zero value of \<^verbatim>\<open>int64\<close>.\<close>

definition MapInt :: "'r FieldMapper \<Rightarrow> string \<Rightarrow> 'r \<Rightarrow> 64 word" where
  "MapInt m attr r =
     (case Map m attr r of
        VInt64 v \<Rightarrow> v
      | _ \<Rightarrow> (case ParseInt attr of Inr v \<Rightarrow> v | Inl e \<Rightarrow> 0))"

subsection \<open>MapStr\<close>

text \<open>\<^verbatim>\<open>strings.Index\<close>: the index of the first occurrence of \<^verbatim>\<open>sep\<close>, if any.\<close>

fun Index :: "string \<Rightarrow> string \<Rightarrow> nat option" where
  "Index [] sep = (if sep = [] then Some 0 else None)"
| "Index (c # cs) sep =
     (if prefix sep (c # cs) then Some 0 else map_option Suc (Index cs sep))"

text \<open>
  \<^verbatim>\<open>cut\<close> skips one byte after the index, whatever the length of \<^verbatim>\<open>sep\<close>. Its only
  caller passes the separator \<^verbatim>\<open>[\<close>, for which both slices are in range.
\<close>

definition cut :: "string \<Rightarrow> string \<Rightarrow> string \<times> string \<times> bool" where
  "cut s sep =
     (case Index s sep of
        None \<Rightarrow> ([], [], False)
      | Some separatorIndex \<Rightarrow> (take separatorIndex s, drop (separatorIndex + 1) s, True))"

text \<open>
  Modelled from the spec: \<^verbatim>\<open>trimBoundingQuotes\<close> is defined outside the available
  sources. The spec says that \<^verbatim>\<open>MapStr\<close> strips surrounding quotes: a leading
  and a trailing quote character, single or double, are removed.
\<close>

definition is_quote :: "char \<Rightarrow> bool" where
  "is_quote c \<longleftrightarrow> c = CHR 0x22 \<or> c = CHR 0x27"

definition trimBoundingQuotes :: "string \<Rightarrow> string" where
  "trimBoundingQuotes s =
     (let s1 = (if s \<noteq> [] \<and> is_quote (hd s) then tl s else s)
      in if s1 \<noteq> [] \<and> is_quote (last s1) then butlast s1 else s1)"

text \<open>
  Modelled from the spec: the attribute names \<^verbatim>\<open>SF_PROC_TTY\<close> and
  \<^verbatim>\<open>SF_PROC_ENTRY\<close> are constants declared outside the available sources; the
  spec names the attributes \<^verbatim>\<open>sf.proc.tty\<close> and \<^verbatim>\<open>sf.proc.entry\<close>.
\<close>

definition SF_PROC_TTY :: string where "SF_PROC_TTY = ''sf.proc.tty''"
definition SF_PROC_ENTRY :: string where "SF_PROC_ENTRY = ''sf.proc.entry''"

text \<open>A run-time panic of the Go program.\<close>

datatype panic = SliceBoundsOutOfRange

text \<open>
  \<^verbatim>\<open>MapStr\<close>. The JSON lookup \<^verbatim>\<open>gjson.Get(v, jsonpath).String()\<close> belongs to an
  external library and is the parameter \<open>gjson_Get\<close>. When \<^verbatim>\<open>attr\<close> contains
  \<^verbatim>\<open>[\<close>, \<^verbatim>\<open>baseattr\<close> stays the part before it, whether or not that part is a
  key of the table. The slice \<^verbatim>\<open>jsonpath[:len(jsonpath)-1]\<close> panics on an empty
  \<^verbatim>\<open>jsonpath\<close>. \<^verbatim>\<open>sfgo.Zeros.String\<close> is the empty string.
\<close>

definition MapStr ::
  "(string \<Rightarrow> string \<Rightarrow> string) \<Rightarrow> 'r FieldMapper \<Rightarrow> string \<Rightarrow> 'r \<Rightarrow> panic + string" where
  "MapStr gjson_Get m attr r =
     (case cut attr ''['' of (baseattr0, jsonpath0, found) \<Rightarrow>
        (let isPathExp = (found \<and> Mappers m baseattr0 \<noteq> None);
             baseattr = (if found then baseattr0 else attr)
         in if isPathExp \<and> jsonpath0 = [] then Inl SliceBoundsOutOfRange
            else
              (let jsonpath = (if isPathExp then butlast jsonpath0 else jsonpath0)
               in case Map m baseattr r of
                    VString v \<Rightarrow>
                      if isPathExp \<and> v \<noteq> [] \<and> jsonpath \<noteq> [] then Inr (gjson_Get v jsonpath)
                      else Inr (trimBoundingQuotes v)
                  | VInt64 v \<Rightarrow>
                      if baseattr = SF_PROC_TTY \<or> baseattr = SF_PROC_ENTRY
                      then Inr (FormatBool (v \<noteq> 0))
                      else Inr (FormatInt (sint v))
                  | VInt32 v \<Rightarrow> Inr (FormatInt (sint v))
                  | VBool v \<Rightarrow> Inr (FormatBool v)
                  | VOther \<Rightarrow> Inr [])))"

section \<open>Operations vocabulary (package falco, operations)\<close>

text \<open>
  Modelled from the spec: the constant \<^verbatim>\<open>LISTSEP\<close> is declared outside the
  available sources; the spec writes list-valued attributes as \<^verbatim>\<open>a,b,c\<close>.
\<close>

definition LISTSEP :: string where "LISTSEP = '',''"

text \<open>
  \<^verbatim>\<open>strings.Split\<close> for a separator that is not empty: the pieces between the
  occurrences of \<^verbatim>\<open>sep\<close>, found from left to right without overlap. \<open>k\<close> counts
  the bytes of a separator still to be skipped, \<open>acc\<close> holds the current piece
  in reverse.
\<close>

fun Split_from :: "string \<Rightarrow> nat \<Rightarrow> string \<Rightarrow> string \<Rightarrow> string list" where
  "Split_from sep k acc [] = [rev acc]"
| "Split_from sep k acc (c # cs) =
     (if k > 0 then Split_from sep (k - 1) acc cs
      else if prefix sep (c # cs) then rev acc # Split_from sep (length sep - 1) [] cs
      else Split_from sep 0 (c # acc) cs)"

text \<open>With an empty separator \<^verbatim>\<open>strings.Split\<close> cuts ASCII text into its bytes.\<close>

definition Split :: "string \<Rightarrow> string \<Rightarrow> string list" where
  "Split s sep = (if sep = [] then map (\<lambda>c. [c]) s else Split_from sep 0 [] s)"

type_synonym operator = "string \<Rightarrow> string \<Rightarrow> bool"

definition ops_eq :: operator where
  "ops_eq l r \<longleftrightarrow> l = r"

text \<open>
  \<^verbatim>\<open>eval\<close>: both operands are split at the list separator; the result is true
  when some pair of pieces satisfies the operator. (\<^verbatim>\<open>Sprintf("%v", s)\<close> of a
  string is the string.)
\<close>

definition eval :: "string \<Rightarrow> string \<Rightarrow> operator \<Rightarrow> bool" where
  "eval l r op =
     list_ex (\<lambda>lattr. list_ex (\<lambda>rattr. op lattr rattr) (Split r LISTSEP)) (Split l LISTSEP)"

text \<open>
  \<^verbatim>\<open>Eq\<close> evaluates both mappers on the record, the left one first; a panic of
  a mapper ends the evaluation.
\<close>

definition Eq ::
  "(string \<Rightarrow> string \<Rightarrow> string) \<Rightarrow> 'r FieldMapper \<Rightarrow> string \<Rightarrow> string \<Rightarrow> 'r \<Rightarrow> panic + bool" where
  "Eq gjson_Get m lattr rattr r =
     (case MapStr gjson_Get m lattr r of
        Inl e \<Rightarrow> Inl e
      | Inr l \<Rightarrow>
          (case MapStr gjson_Get m rattr r of
             Inl e \<Rightarrow> Inl e
           | Inr rv \<Rightarrow> Inr (eval l rv ops_eq)))"

text \<open>
  \<^verbatim>\<open>In\<close>: the loop over the list evaluates the mapper at each element and
  compares its value with the element itself.
\<close>

fun In_loop ::
  "(string \<Rightarrow> string \<Rightarrow> string) \<Rightarrow> 'r FieldMapper \<Rightarrow> string \<Rightarrow> string list \<Rightarrow> 'r \<Rightarrow> panic + bool" where
  "In_loop gjson_Get m attr [] r = Inr False"
| "In_loop gjson_Get m attr (v # vs) r =
     (case MapStr gjson_Get m attr r of
        Inl e \<Rightarrow> Inl e
      | Inr l \<Rightarrow> if eval l v ops_eq then Inr True else In_loop gjson_Get m attr vs r)"

definition In ::
  "(string \<Rightarrow> string \<Rightarrow> string) \<Rightarrow> 'r FieldMapper \<Rightarrow> string \<Rightarrow> string list \<Rightarrow> 'r \<Rightarrow> panic + bool" where
  "In gjson_Get m attr list r = In_loop gjson_Get m attr list r"


subsection \<open>A mapper table with one entry\<close>

text \<open>
  A table holding the single attribute \<^verbatim>\<open>sf.proc.pid\<close>, whose value is the
  \<^verbatim>\<open>int64\<close> 7 on every record, and a JSON lookup that finds nothing.
\<close>

definition pid_mapper :: "nat FieldMapper" where
  "pid_mapper = \<lparr>Mappers = [''sf.proc.pid'' \<mapsto> \<lparr>FieldEntry.Map = (\<lambda>r. VInt64 7)\<rparr>]\<rparr>"

definition no_json :: "string \<Rightarrow> string \<Rightarrow> string" where
  "no_json v path = []"

section \<open>Log stream tailer (package logstream)\<close>

type_synonym byte = "8 word"
type_synonym bytes = "byte list"
type_synonym rune = "32 word"

text \<open>
  A \<^verbatim>\<open>LogLine\<close> carries the context, the file name and the text of the line. The
  text is a Go string, a sequence of bytes.
\<close>

record 'c LogLine =
  Context :: 'c
  Filename :: string
  Line :: bytes

definition New :: "'c \<Rightarrow> string \<Rightarrow> bytes \<Rightarrow> 'c LogLine" where
  "New ctx filename line = \<lparr>Context = ctx, Filename = filename, Line = line\<rparr>"

subsection \<open>The functions of package utf8 used by the decoder\<close>

definition RuneError :: rune where
  "RuneError = 0xFFFD"

text \<open>
  The table \<^verbatim>\<open>first\<close>: information about the first byte of an encoding.
  \<^verbatim>\<open>0xF0\<close> marks ASCII, \<^verbatim>\<open>0xF1\<close> an invalid first byte; otherwise the low three
  bits are the size of the encoding and the high four bits index
  \<^verbatim>\<open>acceptRanges\<close>.
\<close>

definition first :: "byte \<Rightarrow> byte" where
  "first p0 =
     (if p0 \<le> 0x7F then 0xF0
      else if p0 \<le> 0xC1 then 0xF1
      else if p0 \<le> 0xDF then 0x02
      else if p0 = 0xE0 then 0x13
      else if p0 \<le> 0xEC then 0x03
      else if p0 = 0xED then 0x23
      else if p0 \<le> 0xEF then 0x03
      else if p0 = 0xF0 then 0x34
      else if p0 \<le> 0xF3 then 0x04
      else if p0 = 0xF4 then 0x44
      else 0xF1)"

definition acceptRanges :: "nat \<Rightarrow> byte \<times> byte" where
  "acceptRanges i =
     (if i = 0 then (0x80, 0xBF)
      else if i = 1 then (0xA0, 0xBF)
      else if i = 2 then (0x80, 0x9F)
      else if i = 3 then (0x90, 0xBF)
      else (0x80, 0x8F))"

text \<open>
  \<^verbatim>\<open>utf8.DecodeRune\<close>: the first rune of \<^verbatim>\<open>p\<close> and its width in bytes;
  \<^verbatim>\<open>(RuneError, 0)\<close> on an empty slice and \<^verbatim>\<open>(RuneError, 1)\<close> on an encoding that is
  invalid or cut short. The size taken from the table is 2, 3 or 4 and
  \<^verbatim>\<open>len(p)\<close> is checked against it before \<^verbatim>\<open>p[1]\<close>, \<^verbatim>\<open>p[2]\<close> and \<^verbatim>\<open>p[3]\<close> are
  read.
\<close>

definition DecodeRune :: "bytes \<Rightarrow> rune \<times> nat" where
  "DecodeRune p =
     (case p of
        [] \<Rightarrow> (RuneError, 0)
      | p0 # rest \<Rightarrow>
          (let x = first p0 in
           if x \<ge> 0xF0 then (if x = 0xF0 then ucast p0 else RuneError, 1)
           else
             (let sz = unat (x AND 7);
                  accept = acceptRanges (unat (drop_bit 4 x))
              in if length p < sz then (RuneError, 1)
                 else
                   (let b1 = p ! 1 in
                    if b1 < fst accept \<or> snd accept < b1 then (RuneError, 1)
                    else if sz \<le> 2
                      then (push_bit 6 (ucast (p0 AND 0x1F)) OR ucast (b1 AND 0x3F), 2)
                    else
                      (let b2 = p ! 2 in
                       if b2 < 0x80 \<or> 0xBF < b2 then (RuneError, 1)
                       else if sz \<le> 3
                         then (push_bit 12 (ucast (p0 AND 0x0F)) OR push_bit 6 (ucast (b1 AND 0x3F))
                                 OR ucast (b2 AND 0x3F), 3)
                       else
                         (let b3 = p ! 3 in
                          if b3 < 0x80 \<or> 0xBF < b3 then (RuneError, 1)
                          else (push_bit 18 (ucast (p0 AND 0x07))
                                  OR push_bit 12 (ucast (b1 AND 0x3F))
                                  OR push_bit 6 (ucast (b2 AND 0x3F))
                                  OR ucast (b3 AND 0x3F), 4)))))))"

text \<open>
  The encoding that \<^verbatim>\<open>WriteRune\<close> appends to a buffer. The comparisons are those
  of \<^verbatim>\<open>uint32(r)\<close>; a rune beyond \<^verbatim>\<open>MaxRune\<close> or in the surrogate range is written
  as \<^verbatim>\<open>RuneError\<close>.
\<close>

definition encode3 :: "rune \<Rightarrow> bytes" where
  "encode3 r = [0xE0 OR ucast (drop_bit 12 r), 0x80 OR (ucast (drop_bit 6 r) AND 0x3F),
                0x80 OR (ucast r AND 0x3F)]"

definition EncodeRune :: "rune \<Rightarrow> bytes" where
  "EncodeRune r =
     (if r < 0x80 then [ucast r]
      else if r \<le> 0x7FF then [0xC0 OR ucast (drop_bit 6 r), 0x80 OR (ucast r AND 0x3F)]
      else if r > 0x10FFFF \<or> (0xD800 \<le> r \<and> r \<le> 0xDFFF) then encode3 RuneError
      else if r \<le> 0xFFFF then encode3 r
      else [0xF0 OR ucast (drop_bit 18 r), 0x80 OR (ucast (drop_bit 12 r) AND 0x3F),
            0x80 OR (ucast (drop_bit 6 r) AND 0x3F), 0x80 OR (ucast r AND 0x3F)])"

subsection \<open>decodeAndSend and sendLine\<close>

text \<open>
  The state that the decoder works on: the buffer \<^verbatim>\<open>partial\<close> and the lines sent
  on the channel \<^verbatim>\<open>lines\<close> so far, oldest first. The counter \<^verbatim>\<open>logLines\<close> and the
  trace log are left out.
\<close>

record 'c tail_state =
  partial :: bytes
  lines :: "'c LogLine list"

definition sendLine :: "'c \<Rightarrow> string \<Rightarrow> 'c tail_state \<Rightarrow> 'c tail_state" where
  "sendLine ctx pathname st =
     st\<lparr>lines := lines st @ [New ctx pathname (partial st)], partial := []\<rparr>"

lemma DecodeRune_width: "p \<noteq> [] \<Longrightarrow> 0 < snd (DecodeRune p)"
  by (cases p) (simp_all add: DecodeRune_def Let_def)

text \<open>
  The loop of \<^verbatim>\<open>decodeAndSend\<close>, from index \<open>i\<close>: it runs while
  \<^verbatim>\<open>i < len(b) && i < n\<close> and advances by the width of the rune decoded from
  \<^verbatim>\<open>b[i:]\<close>.
\<close>

function decodeAndSend_from ::
  "'c \<Rightarrow> string \<Rightarrow> int \<Rightarrow> bytes \<Rightarrow> nat \<Rightarrow> 'c tail_state \<Rightarrow> 'c tail_state" where
  "decodeAndSend_from ctx pathname n b i st =
     (if i < length b \<and> int i < n then
        (case DecodeRune (drop i b) of (r, width) \<Rightarrow>
           decodeAndSend_from ctx pathname n b (i + width)
             (if r = 0x0D then st
              else if r = 0x0A then sendLine ctx pathname st
              else st\<lparr>partial := partial st @ EncodeRune r\<rparr>))
      else st)"
  by pat_completeness auto
termination
proof (relation "measure (\<lambda>(ctx, pathname, n, b, i, st). length b - i)", goal_cases)
  case 1
  show ?case by simp
next
  case (2 ctx pathname n b i st r width)
  from 2(1) have "drop i b \<noteq> []" by simp
  then have "0 < snd (DecodeRune (drop i b))" by (rule DecodeRune_width)
  then have "0 < width" using 2(2) by (metis snd_conv)
  then show ?case using 2(1) by (simp, linarith)
qed

declare decodeAndSend_from.simps [simp del]

definition decodeAndSend ::
  "'c \<Rightarrow> string \<Rightarrow> int \<Rightarrow> bytes \<Rightarrow> 'c tail_state \<Rightarrow> 'c tail_state" where
  "decodeAndSend ctx pathname n b st = decodeAndSend_from ctx pathname n b 0 st"


subsection \<open>The decode step, rune by rune\<close>

text \<open>
  The runes of a buffer, decoded one after the other from its start, and what
  the decode step does with one rune: a carriage return is dropped, a newline
  sends the pending text as one line and empties the buffer, any other rune is
  appended to the buffer.
\<close>

function runes_of :: "bytes \<Rightarrow> rune list" where
  "runes_of p =
     (if p = [] then []
      else (case DecodeRune p of (r, width) \<Rightarrow> r # runes_of (drop width p)))"
  by pat_completeness auto
termination
proof (relation "measure length", goal_cases)
  case 1
  show ?case by simp
next
  case (2 p r width)
  from 2(1) have "0 < snd (DecodeRune p)" by (rule DecodeRune_width)
  then have "0 < width" using 2(2) by (metis snd_conv)
  then show ?case using 2(1) by simp
qed

declare runes_of.simps [simp del]

definition rune_step :: "'c \<Rightarrow> string \<Rightarrow> 'c tail_state \<Rightarrow> rune \<Rightarrow> 'c tail_state" where
  "rune_step ctx pathname st r =
     (if r = 0x0D then st
      else if r = 0x0A
        then \<lparr>partial = [],
              lines = lines st @ [\<lparr>Context = ctx, Filename = pathname, Line = partial st\<rparr>]\<rparr>
      else \<lparr>partial = partial st @ EncodeRune r, lines = lines st\<rparr>)"


text \<open>The bytes \<^verbatim>\<open>a b \r \n\<close>, the two bytes of U+00E9 and the invalid byte \<^verbatim>\<open>0xFF\<close>.\<close>

definition crlf_buffer :: bytes where
  "crlf_buffer = [0x61, 0x62, 0x0D, 0x0A, 0xC3, 0xA9, 0xFF]"


subsection \<open>The loop of fileStream.stream\<close>

text \<open>
  One iteration of the loop asks the outside world a fixed series of questions.
  An \<open>observation\<close> holds the answers given during one iteration: the result of
  \<^verbatim>\<open>fd.Read\<close> (the bytes \<^verbatim>\<open>b[:count]\<close> and the error), the result of \<^verbatim>\<open>os.Stat\<close>
  on the pathname, whether the nested call of \<^verbatim>\<open>fs.stream\<close> could open the file
  and start its goroutine, the offset returned by \<^verbatim>\<open>fd.Seek(0, io.SeekCurrent)\<close>,
  whether the context is cancelled and whether the stop channel is closed.
\<close>

datatype read_error = ErrNil | ErrEOF | ErrESTALE | ErrOther























section \<open>Properties of the interpreter\<close>

lemma EvalFilters_loop_iff:
  "EvalFilters_loop fs r \<longleftrightarrow> (\<exists>f \<in> set fs. Filter.Enabled f \<and> holds (Filter.condition f) r)"
  by (induction fs) auto

lemma Process_rules_iff:
  "Process_rules rs r m \<longleftrightarrow> m \<or> (\<exists>rule \<in> set rs. Rule.Enabled rule \<and> holds (Rule.condition rule) r)"
  by (induction rs arbitrary: m) auto

text \<open>
  Claim C1. \<^verbatim>\<open>Process\<close> returns nil whenever some enabled filter holds on the
  record, whatever the rules do. When no enabled filter holds, it returns the
  record in enrich mode, and in alert mode it returns the record exactly when
  some enabled rule holds, and nil otherwise.
\<close>

theorem Process_filters_then_mode:
  "((\<exists>f \<in> set (filters pi). Filter.Enabled f \<and> holds (Filter.condition f) r)
      \<longrightarrow> Process pi r = None) \<and>
   (\<not> (\<exists>f \<in> set (filters pi). Filter.Enabled f \<and> holds (Filter.condition f) r)
      \<longrightarrow> (mode pi = EnrichMode \<longrightarrow> Process pi r = Some r) \<and>
          (mode pi = AlertMode \<longrightarrow>
             ((\<exists>rule \<in> set (rules pi). Rule.Enabled rule \<and> holds (Rule.condition rule) r)
                \<longrightarrow> Process pi r = Some r) \<and>
             (\<not> (\<exists>rule \<in> set (rules pi). Rule.Enabled rule \<and> holds (Rule.condition rule) r)
                \<longrightarrow> Process pi r = None)))"
  by (cases "mode pi")
     (auto simp: Process_def EvalFilters_def EvalFilters_loop_iff Process_rules_iff Let_def)

theorem Process_filters_then_mode_witness:
  "Process \<lparr>mode = AlertMode,
            rules = [\<lparr>Rule.Name = ''r'', Desc = ''d'', condition = (True_crit :: (nat, unit) Criterion),
                      Actions = [], Tags = [], Priority = Low, Prefilter = [], Enabled = True\<rparr>],
            filters = [\<lparr>Filter.Name = ''f'', condition = True_crit, Enabled = True\<rparr>]\<rparr> (7::nat) = None
   \<and> Process \<lparr>mode = EnrichMode, rules = ([] :: (nat, unit) Rule list),
            filters = [\<lparr>Filter.Name = ''f'', condition = True_crit, Enabled = False\<rparr>]\<rparr> (7::nat) = Some 7
   \<and> Process \<lparr>mode = AlertMode,
            rules = [\<lparr>Rule.Name = ''r'', Desc = ''d'', condition = (True_crit :: (nat, unit) Criterion),
                      Actions = [], Tags = [], Priority = Low, Prefilter = [], Enabled = True\<rparr>],
            filters = [\<lparr>Filter.Name = ''f'', condition = False_crit, Enabled = True\<rparr>]\<rparr> (7::nat) = Some 7
   \<and> Process \<lparr>mode = AlertMode,
            rules = [\<lparr>Rule.Name = ''r'', Desc = ''d'', condition = (False_crit :: (nat, unit) Criterion),
                      Actions = [], Tags = [], Priority = Low, Prefilter = [], Enabled = True\<rparr>],
            filters = []\<rparr> (7::nat) = None"
proof (intro conjI)
  let ?rt = "\<lparr>Rule.Name = ''r'', Desc = ''d'', condition = (True_crit :: (nat, unit) Criterion),
              Actions = [], Tags = [], Priority = Low, Prefilter = [], Enabled = True\<rparr>"
  let ?rf = "\<lparr>Rule.Name = ''r'', Desc = ''d'', condition = (False_crit :: (nat, unit) Criterion),
              Actions = [], Tags = [], Priority = Low, Prefilter = [], Enabled = True\<rparr>"
  show "Process \<lparr>mode = AlertMode, rules = [?rt],
          filters = [\<lparr>Filter.Name = ''f'', condition = True_crit, Enabled = True\<rparr>]\<rparr> (7::nat) = None"
    using Process_filters_then_mode
      [of "\<lparr>mode = AlertMode, rules = [?rt],
            filters = [\<lparr>Filter.Name = ''f'', condition = True_crit, Enabled = True\<rparr>]\<rparr>" "7::nat"]
    by (simp add: holds_def Eval_def True_crit_def)
  show "Process \<lparr>mode = EnrichMode, rules = ([] :: (nat, unit) Rule list),
          filters = [\<lparr>Filter.Name = ''f'', condition = True_crit, Enabled = False\<rparr>]\<rparr> (7::nat) = Some 7"
    using Process_filters_then_mode
      [of "\<lparr>mode = EnrichMode, rules = ([] :: (nat, unit) Rule list),
            filters = [\<lparr>Filter.Name = ''f'', condition = True_crit, Enabled = False\<rparr>]\<rparr>" "7::nat"]
    by simp
  show "Process \<lparr>mode = AlertMode, rules = [?rt],
          filters = [\<lparr>Filter.Name = ''f'', condition = False_crit, Enabled = True\<rparr>]\<rparr> (7::nat) = Some 7"
    using Process_filters_then_mode
      [of "\<lparr>mode = AlertMode, rules = [?rt],
            filters = [\<lparr>Filter.Name = ''f'', condition = False_crit, Enabled = True\<rparr>]\<rparr>" "7::nat"]
    by (simp add: holds_def Eval_def True_crit_def False_crit_def)
  show "Process \<lparr>mode = AlertMode, rules = [?rf], filters = []\<rparr> (7::nat) = None"
    using Process_filters_then_mode [of "\<lparr>mode = AlertMode, rules = [?rf], filters = []\<rparr>" "7::nat"]
    by (simp add: holds_def Eval_def False_crit_def)
qed

lemma Process_returns_its_argument: "Process pi r = None \<or> Process pi r = Some r"
  by (simp add: Process_def Let_def)

text \<open>
  Claim C2. A record that passes the filters and matches an enabled rule should
  reach the output with the rule's metadata in its context and, in alert mode,
  with the alert flag set. \<^verbatim>\<open>Process\<close> forwards the record it was given: on the
  policy of scenario S1 in alert mode the forwarded record still has an empty
  context and the alert flag unset.
\<close>

theorem Process_forwards_context_untouched:
  "map_option Ctx (Process alert_policy bash_record)
     = Some \<lparr>alert = False, matched = [], tags = []\<rparr>"
  by (simp add: Process_def EvalFilters_def alert_policy_def proc_exec_def bash_record_def
      holds_def Eval_def True_crit_def)

section \<open>Properties of the predicate algebra\<close>

text \<open>
  Without an error from the receiver, \<^verbatim>\<open>And\<close>, \<^verbatim>\<open>Or\<close> and \<^verbatim>\<open>Not\<close> return false
  and no error, whatever the boolean results are.
\<close>

lemma And_without_error: "snd (Eval c r) = None \<Longrightarrow> Eval (And c cr) r = (False, None)"
  by (cases "Eval c r") (simp add: And_def Eval_def)

lemma Or_without_error: "snd (Eval c r) = None \<Longrightarrow> Eval (Or c cr) r = (False, None)"
  by (cases "Eval c r") (simp add: Or_def Eval_def)

lemma Not_without_error: "snd (Eval c r) = None \<Longrightarrow> Eval (Not_crit c) r = (False, None)"
  by (cases "Eval c r") (simp add: Not_crit_def Eval_def)

text \<open>With an error from the receiver, \<^verbatim>\<open>And\<close> returns the receiver's own result.\<close>

lemma And_with_error: "snd (Eval c r) \<noteq> None \<Longrightarrow> Eval (And c cr) r = Eval c r"
  by (cases "Eval c r") (auto simp: And_def Eval_def)

text \<open>
  Claim C3. \<^verbatim>\<open>And(p, q)\<close> should return the conjunction of the two results when
  neither errs, and the conjunction with the first error when \<^verbatim>\<open>p\<close> errs. On two
  predicates that are true without error the source's \<^verbatim>\<open>And\<close> returns false; and
  when \<^verbatim>\<open>p\<close> errs with result true while \<^verbatim>\<open>q\<close> is false, it returns true, having
  evaluated \<^verbatim>\<open>p\<close> twice and \<^verbatim>\<open>q\<close> not at all.
\<close>

theorem And_not_conjunction:
  "Eval (And True_crit True_crit) r = (False, None) \<and>
   Eval (And (Criterion (\<lambda>r. (True, Some e))) False_crit) r = (True, Some e)"
  by (simp add: And_def Eval_def True_crit_def False_crit_def)

text \<open>
  Claim C4. \<^verbatim>\<open>Not(Not(p))\<close> should agree with \<^verbatim>\<open>p\<close> on records where \<^verbatim>\<open>p\<close> does not
  err. On the constant true predicate the source's double negation returns
  false without error, while the predicate itself returns true.
\<close>

theorem Not_Not_loses_true:
  "Eval (Not_crit (Not_crit True_crit)) r = (False, None) \<and> Eval True_crit r = (True, None)"
  by (simp add: Not_crit_def Eval_def True_crit_def)

section \<open>Properties of the policy compiler\<close>

text \<open>
  Claim C7, as stated: debug, info, informational and notice give low, warning
  gives medium, error, critical and emergency give high, the names low, medium
  and high give themselves, and any other severity text gives low with a
  warning. The last part fails: the text \<^verbatim>\<open>WARNING\<close>, made of ASCII letters, is
  none of the eleven names, yet it gives medium, and no warning is logged.
\<close>

theorem getPriority_upper_case_counterexample:
  "''WARNING'' \<notin> {''low'', ''medium'', ''high'', ''debug'', ''info'', ''informational'',
       ''notice'', ''warning'', ''error'', ''critical'', ''emergency''}
   \<and> list_all is_ascii ''WARNING''
   \<and> ToLower_ascii ''WARNING'' = ''warning''
   \<and> getPriority ToLower_ascii (Some ''WARNING'') = (Medium, False)"
proof (intro conjI)
  show "''WARNING'' \<notin> {''low'', ''medium'', ''high'', ''debug'', ''info'', ''informational'',
       ''notice'', ''warning'', ''error'', ''critical'', ''emergency''}"
    by simp
  show "list_all is_ascii ''WARNING''"
    by code_simp
  show "ToLower_ascii ''WARNING'' = ''warning''"
    by code_simp
  show "getPriority ToLower_ascii (Some ''WARNING'') = (Medium, False)"
    by code_simp
qed

text \<open>
  Claim C7, amended: the mapping is applied to the severity text lower-cased by
  \<^verbatim>\<open>strings.ToLower\<close>. A text whose lower-case form is low, debug, info,
  informational or notice gives low; medium or warning give medium; high,
  error, critical or emergency give high; and a text whose lower-case form is
  none of these gives low with a warning. This holds whatever the lower-casing
  function does.
\<close>

theorem getPriority_lower_cased:
  "getPriority ToLower (Some p) =
     (if ToLower p \<in> {''low'', ''debug'', ''info'', ''informational'', ''notice''} then (Low, False)
      else if ToLower p \<in> {''medium'', ''warning''} then (Medium, False)
      else if ToLower p \<in> {''high'', ''error'', ''critical'', ''emergency''} then (High, False)
      else (Low, True))"
  by (simp add: getPriority_def Let_def FPriorityDebug_def FPriorityInfo_def
      FPriorityInformational_def FPriorityNotice_def FPriorityWarning_def FPriorityError_def
      FPriorityCritical_def FPriorityEmergency_def)

text \<open>A rule without a severity has priority low, and no warning is logged.\<close>

lemma getPriority_no_severity: "getPriority ToLower None = (Low, False)"
  by (simp add: getPriority_def)

section \<open>Properties of the field mapper\<close>

subsection \<open>What \<^verbatim>\<open>ParseInt\<close> accepts\<close>

lemma digit_val_range: "is_digit c \<Longrightarrow> 0 \<le> digit_val c \<and> digit_val c \<le> 9"
  by (simp add: is_digit_def digit_val_def)

lemma foldl_digits_mono:
  "0 \<le> a \<Longrightarrow> list_all is_digit cs \<Longrightarrow> a \<le> foldl (\<lambda>a c. a * 10 + digit_val c) a cs"
proof (induction cs arbitrary: a)
  case Nil
  then show ?case by simp
next
  case (Cons c cs)
  from Cons.prems have d: "0 \<le> digit_val c" and rest: "list_all is_digit cs"
    using digit_val_range by auto
  have "a \<le> a * 10 + digit_val c" using Cons.prems(1) d by simp
  moreover have "a * 10 + digit_val c \<le> foldl (\<lambda>a c. a * 10 + digit_val c) (a * 10 + digit_val c) cs"
    using Cons.IH [of "a * 10 + digit_val c"] Cons.prems(1) d rest by simp
  ultimately show ?case by simp
qed

lemma ParseUint_loop_digit:
  assumes dg: "is_digit c" and n0: "0 \<le> n" and n64: "n < 18446744073709551616"
  shows "ParseUint_loop (c # cs) n =
           (if n * 10 + digit_val c < 18446744073709551616
            then ParseUint_loop cs (n * 10 + digit_val c) else Inl ErrRange)"
proof -
  have d: "0 \<le> digit_val c" "digit_val c \<le> 9" using dg digit_val_range by auto
  have p64: "(2::int) ^ 64 = 18446744073709551616" by simp
  have cut: "((18446744073709551616::int) - 1) div 10 + 1 = 1844674407370955162" by simp
  have unfold: "ParseUint_loop (c # cs) n =
      (if n \<ge> 1844674407370955162 then Inl ErrRange
       else if (n * 10 mod 18446744073709551616 + digit_val c) mod 18446744073709551616
                 < n * 10 mod 18446744073709551616
               \<or> (n * 10 mod 18446744073709551616 + digit_val c) mod 18446744073709551616
                 > 18446744073709551616 - 1
            then Inl ErrRange
            else ParseUint_loop cs
                   ((n * 10 mod 18446744073709551616 + digit_val c) mod 18446744073709551616))"
    using dg by (simp only: ParseUint_loop.simps p64 cut Let_def not_True_eq_False if_False not_not)
  show ?thesis
  proof (cases "n \<ge> 1844674407370955162")
    case True
    then have "\<not> n * 10 + digit_val c < 18446744073709551616" using d by linarith
    then show ?thesis using True unfold by (simp only: if_True if_False)
  next
    case False
    then have lt: "n * 10 < 18446744073709551616" by linarith
    have ge: "0 \<le> n * 10" using n0 by linarith
    have n10: "n * 10 mod 18446744073709551616 = n * 10"
      using ge lt by (rule mod_pos_pos_trivial)
    show ?thesis
    proof (cases "n * 10 + digit_val c < 18446744073709551616")
      case small: True
      have "0 \<le> n * 10 + digit_val c" using ge d by linarith
      then have n1: "(n * 10 + digit_val c) mod 18446744073709551616 = n * 10 + digit_val c"
        using small by (rule mod_pos_pos_trivial)
      have a: "\<not> n * 10 + digit_val c < n * 10" using d by linarith
      have b: "\<not> n * 10 + digit_val c > 18446744073709551616 - 1" using small by linarith
      show ?thesis
        using False small unfold a b by (simp only: n10 n1 if_True if_False simp_thms)
    next
      case big: False
      have lo: "0 \<le> n * 10 + digit_val c - 18446744073709551616" using big by linarith
      have hi: "n * 10 + digit_val c - 18446744073709551616 < 18446744073709551616"
        using lt d by linarith
      have "(n * 10 + digit_val c - 18446744073709551616) mod 18446744073709551616
              = n * 10 + digit_val c - 18446744073709551616"
        using lo hi by (rule mod_pos_pos_trivial)
      then have n1: "(n * 10 + digit_val c) mod 18446744073709551616
              = n * 10 + digit_val c - 18446744073709551616"
        by (simp only: minus_mod_self2)
      have a: "n * 10 + digit_val c - 18446744073709551616 < n * 10" using d by linarith
      show ?thesis
        using False big unfold a by (simp only: n10 n1 if_True if_False simp_thms)
    qed
  qed
qed

lemma ParseUint_loop_iff:
  "0 \<le> n \<Longrightarrow> n < 18446744073709551616 \<Longrightarrow>
   ParseUint_loop cs n = Inr v \<longleftrightarrow>
     list_all is_digit cs \<and> v = foldl (\<lambda>a c. a * 10 + digit_val c) n cs
       \<and> v < 18446744073709551616"
proof (induction cs arbitrary: n)
  case Nil
  then show ?case by auto
next
  case (Cons c cs)
  show ?case
  proof (cases "is_digit c")
    case False
    then show ?thesis by simp
  next
    case True
    then have d: "0 \<le> digit_val c" using digit_val_range by blast
    have step: "ParseUint_loop (c # cs) n =
           (if n * 10 + digit_val c < 18446744073709551616
            then ParseUint_loop cs (n * 10 + digit_val c) else Inl ErrRange)"
      using True Cons.prems by (rule ParseUint_loop_digit)
    have nn: "0 \<le> n * 10 + digit_val c" using d Cons.prems(1) by linarith
    show ?thesis
    proof (cases "n * 10 + digit_val c < 18446744073709551616")
      case small: True
      from Cons.IH [OF nn small] show ?thesis
        using True small by (simp only: step if_True list.pred_inject foldl_Cons simp_thms)
    next
      case big: False
      have "\<not> (list_all is_digit (c # cs) \<and>
                   v = foldl (\<lambda>a c. a * 10 + digit_val c) n (c # cs) \<and>
                   v < 18446744073709551616)"
      proof
        assume a: "list_all is_digit (c # cs) \<and>
                   v = foldl (\<lambda>a c. a * 10 + digit_val c) n (c # cs) \<and>
                   v < 18446744073709551616"
        then have "list_all is_digit cs" by simp
        then have "n * 10 + digit_val c
                     \<le> foldl (\<lambda>a c. a * 10 + digit_val c) (n * 10 + digit_val c) cs"
          by (rule foldl_digits_mono [OF nn])
        moreover have "foldl (\<lambda>a c. a * 10 + digit_val c) (n * 10 + digit_val c) cs
                     < 18446744073709551616"
          using a by simp
        ultimately show False using big by linarith
      qed
      then show ?thesis using big by (simp only: step if_False sum.distinct simp_thms)
    qed
  qed
qed

lemma ParseUint_iff:
  "ParseUint s = Inr v \<longleftrightarrow>
     s \<noteq> [] \<and> list_all is_digit s \<and> v = digits_value s \<and> v < 18446744073709551616"
proof (cases "s = []")
  case True
  then show ?thesis by (simp add: ParseUint_def)
next
  case False
  have "ParseUint s = ParseUint_loop s 0" using False by (simp add: ParseUint_def)
  then show ?thesis
    using False ParseUint_loop_iff [of 0 s v] by (simp add: digits_value_def)
qed

lemma digits_value_nonneg: "list_all is_digit s \<Longrightarrow> 0 \<le> digits_value s"
  using foldl_digits_mono [of 0 s] by (simp add: digits_value_def)

lemma ParseInt_Cons:
  "ParseInt (c # cs) =
     (case ParseUint (if c = CHR ''+'' \<or> c = CHR ''-'' then cs else c # cs) of
        Inl e \<Rightarrow> Inl e
      | Inr un \<Rightarrow>
          if c \<noteq> CHR ''-'' \<and> un \<ge> 9223372036854775808 then Inl ErrRange
          else if c = CHR ''-'' \<and> un > 9223372036854775808 then Inl ErrRange
          else Inr (if c = CHR ''-'' then word_of_int (- un) else word_of_int un))"
  by (simp add: ParseInt_def Let_def split: sum.splits)

lemma decimal_literal_Cons:
  "decimal_literal (c # cs) =
     (let body = (if c = CHR ''+'' \<or> c = CHR ''-'' then cs else c # cs)
      in if body \<noteq> [] \<and> list_all is_digit body
         then Some (if c = CHR ''-'' then - digits_value body else digits_value body)
         else None)"
  by (simp add: decimal_literal_def)

lemma ParseInt_decimal_literal:
  "ParseInt s = Inr v \<longleftrightarrow>
     (\<exists>i. decimal_literal s = Some i \<and> - 9223372036854775808 \<le> i \<and> i < 9223372036854775808
          \<and> v = word_of_int i)"
proof (cases s)
  case Nil
  then show ?thesis by (simp add: ParseInt_def decimal_literal_def)
next
  case (Cons c cs)
  define body where "body = (if c = CHR ''+'' \<or> c = CHR ''-'' then cs else c # cs)"
  have pint: "ParseInt s =
     (case ParseUint body of
        Inl e \<Rightarrow> Inl e
      | Inr un \<Rightarrow>
          if c \<noteq> CHR ''-'' \<and> un \<ge> 9223372036854775808 then Inl ErrRange
          else if c = CHR ''-'' \<and> un > 9223372036854775808 then Inl ErrRange
          else Inr (if c = CHR ''-'' then word_of_int (- un) else word_of_int un))"
    unfolding Cons body_def by (rule ParseInt_Cons)
  have dl: "decimal_literal s =
     (if body \<noteq> [] \<and> list_all is_digit body
      then Some (if c = CHR ''-'' then - digits_value body else digits_value body)
      else None)"
    unfolding Cons body_def by (simp only: decimal_literal_Cons Let_def)
  show ?thesis
  proof (cases "body \<noteq> [] \<and> list_all is_digit body \<and> digits_value body < 18446744073709551616")
    case False
    have np: "ParseUint body \<noteq> Inr un" for un
    proof
      assume "ParseUint body = Inr un"
      then have "body \<noteq> [] \<and> list_all is_digit body \<and> un = digits_value body
          \<and> un < 18446744073709551616"
        by (rule ParseUint_iff [of body un, THEN iffD1])
      then show False using False by simp
    qed
    have "ParseInt s \<noteq> Inr v"
    proof (cases "ParseUint body")
      case (Inl e)
      then show ?thesis by (simp only: pint sum.case sum.distinct simp_thms)
    next
      case (Inr un)
      then show ?thesis using np by blast
    qed
    moreover have "\<not> (\<exists>i. decimal_literal s = Some i \<and> - 9223372036854775808 \<le> i
        \<and> i < 9223372036854775808 \<and> v = word_of_int i)"
    proof
      assume "\<exists>i. decimal_literal s = Some i \<and> - 9223372036854775808 \<le> i
        \<and> i < 9223372036854775808 \<and> v = word_of_int i"
      then obtain i where i: "decimal_literal s = Some i" "- 9223372036854775808 \<le> i"
        "i < 9223372036854775808" by blast
      have ok: "body \<noteq> [] \<and> list_all is_digit body"
      proof (rule ccontr)
        assume "\<not> (body \<noteq> [] \<and> list_all is_digit body)"
        then have "decimal_literal s = None" using dl by (simp only: if_False)
        then show False using i(1) by simp
      qed
      then have "\<not> digits_value body < 18446744073709551616" using False by simp
      then have big: "18446744073709551616 \<le> digits_value body" by linarith
      have nn: "0 \<le> digits_value body" using ok digits_value_nonneg by blast
      have "i = (if c = CHR ''-'' then - digits_value body else digits_value body)"
        using i(1) dl ok by (simp split: if_splits)
      then have "i \<le> - 18446744073709551616 \<or> 18446744073709551616 \<le> i"
        using big by (cases "c = CHR ''-''") simp_all
      then show False using i(2,3) by linarith
    qed
    ultimately show ?thesis by blast
  next
    case True
    define dv where "dv = digits_value body"
    have nn: "0 \<le> dv" using True digits_value_nonneg dv_def by blast
    have pu: "ParseUint body = Inr dv" using True ParseUint_iff dv_def by blast
    have dl': "decimal_literal s = Some (if c = CHR ''-'' then - dv else dv)"
      using True dl dv_def by simp
    show ?thesis
    proof (cases "c = CHR ''-''")
      case neg: True
      have pin: "ParseInt s = (if dv > 9223372036854775808 then Inl ErrRange
                          else Inr (word_of_int (- dv)))"
        using neg by (simp only: pint pu sum.case simp_thms if_True if_False)
      have dln: "decimal_literal s = Some (- dv)" using dl' neg by simp
      show ?thesis
      proof
        assume a: "ParseInt s = Inr v"
        have le: "\<not> dv > 9223372036854775808"
        proof
          assume "dv > 9223372036854775808"
          then have "ParseInt s = Inl ErrRange" using pin by simp
          then show False using a by simp
        qed
        then have "v = word_of_int (- dv)" using pin a by simp
        moreover have "- 9223372036854775808 \<le> - dv" using le by linarith
        moreover have "- dv < 9223372036854775808" using nn by linarith
        ultimately show "\<exists>i. decimal_literal s = Some i \<and> - 9223372036854775808 \<le> i
            \<and> i < 9223372036854775808 \<and> v = word_of_int i"
          using dln by blast
      next
        assume "\<exists>i. decimal_literal s = Some i \<and> - 9223372036854775808 \<le> i
            \<and> i < 9223372036854775808 \<and> v = word_of_int i"
        then obtain i where i: "decimal_literal s = Some i" "- 9223372036854775808 \<le> i"
            "v = word_of_int i" by blast
        have "i = - dv" using i(1) dln by simp
        then have "\<not> dv > 9223372036854775808" and "v = word_of_int (- dv)"
          using i(2,3) by simp_all
        then show "ParseInt s = Inr v" using pin by simp
      qed
    next
      case pos: False
      have pip: "ParseInt s = (if dv \<ge> 9223372036854775808 then Inl ErrRange
                          else Inr (word_of_int dv))"
        using pos by (simp only: pint pu sum.case simp_thms if_True if_False)
      have dlp: "decimal_literal s = Some dv" using dl' pos by simp
      show ?thesis
      proof
        assume a: "ParseInt s = Inr v"
        have lt: "\<not> dv \<ge> 9223372036854775808"
        proof
          assume "dv \<ge> 9223372036854775808"
          then have "ParseInt s = Inl ErrRange" using pip by simp
          then show False using a by simp
        qed
        then have "v = word_of_int dv" using pip a by simp
        moreover have "dv < 9223372036854775808" using lt by linarith
        moreover have "- 9223372036854775808 \<le> dv" using nn by linarith
        ultimately show "\<exists>i. decimal_literal s = Some i \<and> - 9223372036854775808 \<le> i
            \<and> i < 9223372036854775808 \<and> v = word_of_int i"
          using dlp by blast
      next
        assume "\<exists>i. decimal_literal s = Some i \<and> - 9223372036854775808 \<le> i
            \<and> i < 9223372036854775808 \<and> v = word_of_int i"
        then obtain i where i: "decimal_literal s = Some i" "i < 9223372036854775808"
            "v = word_of_int i" by blast
        have "i = dv" using i(1) dlp by simp
        then have "\<not> dv \<ge> 9223372036854775808" and "v = word_of_int dv"
          using i(2,3) by simp_all
        then show "ParseInt s = Inr v" using pip by simp
      qed
    qed
  qed
qed

subsection \<open>MapInt\<close>

text \<open>
  Claim C6. \<^verbatim>\<open>MapInt(attr)(r)\<close> is the mapped value when the accessor yields an
  \<^verbatim>\<open>int64\<close>; otherwise, when \<^verbatim>\<open>attr\<close> parses as a decimal integer, it is the
  value parsed; otherwise it is zero. What parses is a decimal literal (an
  optional sign and at least one digit) whose value fits an \<^verbatim>\<open>int64\<close>, and the
  value parsed is the value of the literal.
\<close>

theorem MapInt_cases:
  "(Map m attr r = VInt64 v \<longrightarrow> MapInt m attr r = v) \<and>
   ((\<forall>w. Map m attr r \<noteq> VInt64 w) \<and> ParseInt attr = Inr n \<longrightarrow> MapInt m attr r = n) \<and>
   ((\<forall>w. Map m attr r \<noteq> VInt64 w) \<and> ParseInt attr = Inl e \<longrightarrow> MapInt m attr r = 0) \<and>
   (ParseInt attr = Inr n \<longleftrightarrow>
      (\<exists>i. decimal_literal attr = Some i \<and> - 9223372036854775808 \<le> i
           \<and> i < 9223372036854775808 \<and> n = word_of_int i))"
proof (intro conjI)
  show "Map m attr r = VInt64 v \<longrightarrow> MapInt m attr r = v"
    by (simp add: MapInt_def)
  show "(\<forall>w. Map m attr r \<noteq> VInt64 w) \<and> ParseInt attr = Inr n \<longrightarrow> MapInt m attr r = n"
    by (cases "Map m attr r") (simp_all add: MapInt_def)
  show "(\<forall>w. Map m attr r \<noteq> VInt64 w) \<and> ParseInt attr = Inl e \<longrightarrow> MapInt m attr r = 0"
    by (cases "Map m attr r") (simp_all add: MapInt_def)
  show "ParseInt attr = Inr n \<longleftrightarrow>
      (\<exists>i. decimal_literal attr = Some i \<and> - 9223372036854775808 \<le> i
           \<and> i < 9223372036854775808 \<and> n = word_of_int i)"
    by (rule ParseInt_decimal_literal)
qed

theorem MapInt_cases_witness:
  "MapInt pid_mapper ''sf.proc.pid'' 0 = 7 \<and>
   MapInt pid_mapper ''42'' 0 = 42 \<and>
   MapInt pid_mapper ''sf.proc.exe'' 0 = 0 \<and>
   decimal_literal ''42'' = Some 42"
proof (intro conjI)
  have a: "Map pid_mapper ''sf.proc.pid'' 0 = VInt64 7"
    by (simp add: Map_def pid_mapper_def)
  show "MapInt pid_mapper ''sf.proc.pid'' 0 = 7"
    using MapInt_cases [of pid_mapper "''sf.proc.pid''" 0 7] a by blast
  have b: "\<forall>w. Map pid_mapper ''42'' 0 \<noteq> VInt64 w"
    by (simp add: Map_def pid_mapper_def)
  have c: "ParseInt ''42'' = Inr 42" by code_simp
  show "MapInt pid_mapper ''42'' 0 = 42"
    using MapInt_cases [of pid_mapper "''42''" 0 _ 42] b c by blast
  have d: "\<forall>w. Map pid_mapper ''sf.proc.exe'' 0 \<noteq> VInt64 w"
    by (simp add: Map_def pid_mapper_def)
  have e: "ParseInt ''sf.proc.exe'' = Inl ErrSyntax" by code_simp
  show "MapInt pid_mapper ''sf.proc.exe'' 0 = 0"
    using MapInt_cases [of pid_mapper "''sf.proc.exe''" 0 _ _ ErrSyntax] d e by blast
  show "decimal_literal ''42'' = Some 42" by code_simp
qed

subsection \<open>MapStr on names outside the table\<close>

lemma Index_None: "c \<notin> set s \<Longrightarrow> Index s [c] = None"
  by (induction s) auto

lemma cut_no_sep: "c \<notin> set s \<Longrightarrow> cut s [c] = ([], [], False)"
  by (simp add: cut_def Index_None)

text \<open>
  Claim C9, as stated: for a name that is no key of the table, \<^verbatim>\<open>Map\<close> returns
  the name and \<^verbatim>\<open>MapStr\<close> returns the name with its bounding quotes trimmed.
  The second part fails on a path expression: \<^verbatim>\<open>sf.proc.pid[x]\<close> is no key of
  the table, its base \<^verbatim>\<open>sf.proc.pid\<close> is, and \<^verbatim>\<open>MapStr\<close> returns the value of the
  base attribute, not the name.
\<close>

theorem MapStr_path_expression_counterexample:
  "Mappers pid_mapper ''sf.proc.pid[x]'' = None \<and>
   MapStr no_json pid_mapper ''sf.proc.pid[x]'' 0 = Inr ''7'' \<and>
   trimBoundingQuotes ''sf.proc.pid[x]'' = ''sf.proc.pid[x]''"
proof (intro conjI)
  show "Mappers pid_mapper ''sf.proc.pid[x]'' = None"
    by (simp add: pid_mapper_def)
  show "MapStr no_json pid_mapper ''sf.proc.pid[x]'' 0 = Inr ''7''"
    by code_simp
  show "trimBoundingQuotes ''sf.proc.pid[x]'' = ''sf.proc.pid[x]''"
    by code_simp
qed

text \<open>
  Claim C9, amended: for a name that is no key of the table, \<^verbatim>\<open>Map\<close> returns
  the name; and when the name contains no \<^verbatim>\<open>[\<close>, \<^verbatim>\<open>MapStr\<close> returns the name
  with its bounding quotes trimmed.
\<close>

theorem MapStr_unregistered_literal:
  assumes "Mappers m attr = None"
  shows "Map m attr r = VString attr \<and>
         (CHR ''['' \<notin> set attr \<longrightarrow> MapStr gj m attr r = Inr (trimBoundingQuotes attr))"
  using assms by (simp add: Map_def MapStr_def cut_no_sep)

theorem MapStr_unregistered_literal_witness:
  "Map pid_mapper [CHR 0x22, CHR ''s'', CHR ''h'', CHR 0x22] 0
     = VString [CHR 0x22, CHR ''s'', CHR ''h'', CHR 0x22] \<and>
   MapStr no_json pid_mapper [CHR 0x22, CHR ''s'', CHR ''h'', CHR 0x22] 0 = Inr ''sh''"
proof -
  have a: "Mappers pid_mapper [CHR 0x22, CHR ''s'', CHR ''h'', CHR 0x22] = None"
    by (simp add: pid_mapper_def)
  have b: "CHR ''['' \<notin> set [CHR 0x22, CHR ''s'', CHR ''h'', CHR 0x22]" by simp
  have c: "trimBoundingQuotes [CHR 0x22, CHR ''s'', CHR ''h'', CHR 0x22] = ''sh''"
    by (simp add: trimBoundingQuotes_def is_quote_def)
  show ?thesis
    using MapStr_unregistered_literal [OF a, of 0 no_json] b c by simp
qed

text \<open>
  A name with a \<^verbatim>\<open>[\<close> whose base is no key of the table either is mapped to the
  base, not to the name: the quoted literal \<^verbatim>\<open>"a[b]"\<close> becomes \<^verbatim>\<open>a\<close>.
\<close>

lemma MapStr_literal_with_bracket:
  "MapStr no_json pid_mapper [CHR 0x22, CHR ''a'', CHR ''['', CHR ''b'', CHR '']'', CHR 0x22] 0
     = Inr ''a''"
  by code_simp

section \<open>Properties of the operations\<close>

text \<open>
  Claim C5, as stated: when the value of \<^verbatim>\<open>a\<close> contains no list separator,
  \<^verbatim>\<open>In(a, [x])\<close> and \<^verbatim>\<open>Eq(a, x)\<close> agree. They differ when \<^verbatim>\<open>x\<close> is itself an
  attribute: \<^verbatim>\<open>Eq\<close> compares with the value of \<^verbatim>\<open>x\<close>, \<^verbatim>\<open>In\<close> with the text of
  \<^verbatim>\<open>x\<close>. With \<^verbatim>\<open>sf.proc.pid\<close> on both sides, its value being 7, \<^verbatim>\<open>Eq\<close> is true
  and \<^verbatim>\<open>In\<close> is false.
\<close>

theorem In_singleton_attribute_counterexample:
  "MapStr no_json pid_mapper ''sf.proc.pid'' 0 = Inr ''7'' \<and>
   Index ''7'' LISTSEP = None \<and>
   In no_json pid_mapper ''sf.proc.pid'' [''sf.proc.pid''] 0 = Inr False \<and>
   Eq no_json pid_mapper ''sf.proc.pid'' ''sf.proc.pid'' 0 = Inr True"
proof (intro conjI)
  show "MapStr no_json pid_mapper ''sf.proc.pid'' 0 = Inr ''7''" by code_simp
  show "Index ''7'' LISTSEP = None" by code_simp
  show "In no_json pid_mapper ''sf.proc.pid'' [''sf.proc.pid''] 0 = Inr False" by code_simp
  show "Eq no_json pid_mapper ''sf.proc.pid'' ''sf.proc.pid'' 0 = Inr True" by code_simp
qed

text \<open>
  The same happens with a quoted literal: \<^verbatim>\<open>Eq\<close> strips the quotes of its right
  operand, \<^verbatim>\<open>In\<close> compares with the element as it stands.
\<close>

lemma In_Eq_quoted_literal:
  "In no_json pid_mapper ''sf.proc.pid'' [[CHR 0x22, CHR ''7'', CHR 0x22]] 0 = Inr False \<and>
   Eq no_json pid_mapper ''sf.proc.pid'' [CHR 0x22, CHR ''7'', CHR 0x22] 0 = Inr True"
  by code_simp

text \<open>
  Claim C5, amended: when the value of \<^verbatim>\<open>a\<close> contains no list separator and
  \<^verbatim>\<open>MapStr\<close> maps \<^verbatim>\<open>x\<close> to itself (as it does for a literal without bounding
  quotes and without \<^verbatim>\<open>[\<close> that is no attribute of the table),
  \<^verbatim>\<open>In(a, [x])\<close> and \<^verbatim>\<open>Eq(a, x)\<close> agree.
\<close>

theorem In_singleton_eq_literal:
  assumes "MapStr gj m a r = Inr s" and "Index s LISTSEP = None" and "MapStr gj m x r = Inr x"
  shows "In gj m a [x] r = Eq gj m a x r"
  using assms by (simp add: In_def Eq_def)

theorem In_singleton_eq_literal_witness:
  "In no_json pid_mapper ''sf.proc.pid'' [''7''] 0 = Inr True \<and>
   Eq no_json pid_mapper ''sf.proc.pid'' ''7'' 0 = Inr True"
proof -
  have a: "MapStr no_json pid_mapper ''sf.proc.pid'' 0 = Inr ''7''" by code_simp
  have b: "Index ''7'' LISTSEP = None" by code_simp
  have c: "MapStr no_json pid_mapper ''7'' 0 = Inr ''7''" by code_simp
  have d: "Eq no_json pid_mapper ''sf.proc.pid'' ''7'' 0 = Inr True" by code_simp
  show ?thesis using In_singleton_eq_literal [OF a b c] d by simp
qed

section \<open>Properties of the log stream tailer\<close>

lemma rune_step_as_source:
  "(if r = 0x0D then st
    else if r = 0x0A then sendLine ctx pathname st
    else st\<lparr>partial := partial st @ EncodeRune r\<rparr>) = rune_step ctx pathname st r"
  by (simp add: rune_step_def sendLine_def New_def)

lemma decodeAndSend_from_runes:
  "int (length b) \<le> n \<Longrightarrow>
   decodeAndSend_from ctx pathname n b i st
     = foldl (rune_step ctx pathname) st (runes_of (drop i b))"
proof (induction ctx pathname n b i st rule: decodeAndSend_from.induct)
  case (1 ctx pathname n b i st)
  show ?case
  proof (cases "i < length b")
    case False
    then have "decodeAndSend_from ctx pathname n b i st = st"
      by (subst decodeAndSend_from.simps) simp
    moreover have "runes_of (drop i b) = []"
      using False by (subst runes_of.simps) simp
    ultimately show ?thesis by simp
  next
    case True
    then have guard: "i < length b \<and> int i < n" using "1.prems" by linarith
    obtain r width where rw: "DecodeRune (drop i b) = (r, width)" by (cases "DecodeRune (drop i b)")
    have ne: "drop i b \<noteq> []" using True by simp
    have lhs: "decodeAndSend_from ctx pathname n b i st
        = decodeAndSend_from ctx pathname n b (i + width) (rune_step ctx pathname st r)"
      using guard rw
      by (subst decodeAndSend_from.simps) (simp add: rune_step_as_source)
    have ih: "decodeAndSend_from ctx pathname n b (i + width) (rune_step ctx pathname st r)
        = foldl (rune_step ctx pathname) (rune_step ctx pathname st r)
            (runes_of (drop (i + width) b))"
      using "1.IH" [OF guard rw [symmetric]] "1.prems" by (simp add: rune_step_as_source)
    have rhs: "runes_of (drop i b) = r # runes_of (drop (i + width) b)"
      using ne rw by (subst runes_of.simps) (simp add: add.commute)
    show ?thesis by (simp add: lhs ih rhs)
  qed
qed

text \<open>
  Claim C8. On a buffer \<^verbatim>\<open>b\<close> of length \<^verbatim>\<open>n\<close> and any pending buffer, the decode
  step handles the runes of \<^verbatim>\<open>b\<close> in order: a carriage return is dropped, a
  newline sends one line carrying the pending text and empties the buffer, any
  other rune is appended to the buffer.
\<close>

theorem decodeAndSend_runewise:
  "n = int (length b) \<Longrightarrow>
   decodeAndSend ctx pathname n b st = foldl (rune_step ctx pathname) st (runes_of b)"
  using decodeAndSend_from_runes [of b n ctx pathname 0 st] by (simp add: decodeAndSend_def)

theorem decodeAndSend_runewise_witness:
  "decodeAndSend () ''a.log'' 7 crlf_buffer \<lparr>partial = [0x78], lines = []\<rparr>
     = \<lparr>partial = [0xC3, 0xA9, 0xEF, 0xBF, 0xBD],
          lines = [\<lparr>Context = (), Filename = ''a.log'', Line = [0x78, 0x61, 0x62]\<rparr>]\<rparr>"
proof -
  have len: "(7::int) = int (length crlf_buffer)" by (simp add: crlf_buffer_def)
  have run: "foldl (rune_step () ''a.log'') \<lparr>partial = [0x78], lines = []\<rparr> (runes_of crlf_buffer)
     = \<lparr>partial = [0xC3, 0xA9, 0xEF, 0xBF, 0xBD],
          lines = [\<lparr>Context = (), Filename = ''a.log'', Line = [0x78, 0x61, 0x62]\<rparr>]\<rparr>"
    by code_simp
  show ?thesis
    using decodeAndSend_runewise [OF len, of "()" "''a.log''" "\<lparr>partial = [0x78], lines = []\<rparr>"] run
    by (rule trans)
qed

text \<open>
  Two consequences: the decode step sends one line for each newline rune of
  the buffer; and when the buffer holds no newline, nothing is sent and the
  runes other than carriage returns are appended to the pending buffer.
\<close>

lemma foldl_rune_step_line_count:
  "length (lines (foldl (rune_step ctx pathname) st rs))
     = length (lines st) + length (filter (\<lambda>r. r = 0x0A) rs)"
  by (induction rs arbitrary: st) (simp_all add: rune_step_def)

lemma foldl_rune_step_no_newline:
  "0x0A \<notin> set rs \<Longrightarrow>
   foldl (rune_step ctx pathname) st rs
     = \<lparr>partial = partial st @ concat (map EncodeRune (filter (\<lambda>r. r \<noteq> 0x0D) rs)),
        lines = lines st\<rparr>"
  by (induction rs arbitrary: st) (auto simp: rune_step_def)

lemma decodeAndSend_line_count:
  "length (lines (decodeAndSend ctx pathname (int (length b)) b st))
     = length (lines st) + length (filter (\<lambda>r. r = 0x0A) (runes_of b))"
  using decodeAndSend_from_runes [of b "int (length b)" ctx pathname 0 st]
  by (simp add: decodeAndSend_def foldl_rune_step_line_count)

text \<open>
  When the buffer is longer than \<^verbatim>\<open>n\<close>, a rune that starts before \<^verbatim>\<open>n\<close> is
  decoded whole: with \<^verbatim>\<open>n = 1\<close> both bytes of U+00E9 reach the pending buffer.
  The loop of \<^verbatim>\<open>stream\<close> always passes \<^verbatim>\<open>b[:count]\<close> and \<^verbatim>\<open>count\<close>.
\<close>

lemma decodeAndSend_rune_across_n:
  "decodeAndSend () ''a.log'' 1 [0xC3, 0xA9, 0x0A] \<lparr>partial = [], lines = []\<rparr>
     = \<lparr>partial = [0xC3, 0xA9], lines = []\<rparr>"
  by code_simp

subsection \<open>Rotation\<close>

















end
